theory Spec2Isabelle
  imports Complex_Main "HOL-Library.Word"
begin

unbundle bit_operations_syntax

section \<open>JavaScript numbers\<close>

text \<open>
  A JavaScript \<^verbatim>\<open>number\<close> is an IEEE double. The model keeps the three non-finite
  values apart and takes the finite ones as reals: rounding, overflow to an infinity and
  the sign of zero are left out, every branch the code takes on \<^verbatim>\<open>NaN\<close> or an
  infinity is kept.
\<close>

datatype number = Finite real | NaN | PosInfinity | NegInfinity

text \<open>\<^verbatim>\<open>Number.isFinite(x)\<close> on a value of type number.\<close>

fun isFinite :: "number \<Rightarrow> bool" where
  "isFinite (Finite x) = True"
| "isFinite NaN = False"
| "isFinite PosInfinity = False"
| "isFinite NegInfinity = False"

text \<open>\<^verbatim>\<open>x + y\<close> on numbers.\<close>

fun js_add :: "number \<Rightarrow> number \<Rightarrow> number" where
  "js_add (Finite a) (Finite b) = Finite (a + b)"
| "js_add NaN y = NaN"
| "js_add x NaN = NaN"
| "js_add PosInfinity NegInfinity = NaN"
| "js_add NegInfinity PosInfinity = NaN"
| "js_add PosInfinity y = PosInfinity"
| "js_add x PosInfinity = PosInfinity"
| "js_add NegInfinity y = NegInfinity"
| "js_add x NegInfinity = NegInfinity"

text \<open>\<^verbatim>\<open>x * y\<close> on numbers: an infinity times zero is \<^verbatim>\<open>NaN\<close>.\<close>

fun js_mul :: "number \<Rightarrow> number \<Rightarrow> number" where
  "js_mul (Finite a) (Finite b) = Finite (a * b)"
| "js_mul NaN y = NaN"
| "js_mul x NaN = NaN"
| "js_mul PosInfinity (Finite b) =
     (if b = 0 then NaN else if 0 < b then PosInfinity else NegInfinity)"
| "js_mul NegInfinity (Finite b) =
     (if b = 0 then NaN else if 0 < b then NegInfinity else PosInfinity)"
| "js_mul (Finite a) PosInfinity =
     (if a = 0 then NaN else if 0 < a then PosInfinity else NegInfinity)"
| "js_mul (Finite a) NegInfinity =
     (if a = 0 then NaN else if 0 < a then NegInfinity else PosInfinity)"
| "js_mul PosInfinity PosInfinity = PosInfinity"
| "js_mul PosInfinity NegInfinity = NegInfinity"
| "js_mul NegInfinity PosInfinity = NegInfinity"
| "js_mul NegInfinity NegInfinity = PosInfinity"

text \<open>
  \<^verbatim>\<open>x / y\<close> on numbers. A finite zero divisor is taken as \<^verbatim>\<open>+0\<close>; the code
  below only divides by the non-zero constants 5, 1000 and 1e5.
\<close>

fun js_div :: "number \<Rightarrow> number \<Rightarrow> number" where
  "js_div (Finite a) (Finite b) =
     (if b = 0 then (if a = 0 then NaN else if 0 < a then PosInfinity else NegInfinity)
      else Finite (a / b))"
| "js_div NaN y = NaN"
| "js_div x NaN = NaN"
| "js_div (Finite a) PosInfinity = Finite 0"
| "js_div (Finite a) NegInfinity = Finite 0"
| "js_div PosInfinity (Finite b) = (if 0 \<le> b then PosInfinity else NegInfinity)"
| "js_div NegInfinity (Finite b) = (if 0 \<le> b then NegInfinity else PosInfinity)"
| "js_div PosInfinity y = NaN"
| "js_div NegInfinity y = NaN"


text \<open>\<^verbatim>\<open>x >= y\<close> on numbers: every comparison with \<^verbatim>\<open>NaN\<close> is false.\<close>

fun js_ge :: "number \<Rightarrow> number \<Rightarrow> bool" where
  "js_ge (Finite a) (Finite b) = (b \<le> a)"
| "js_ge NaN y = False"
| "js_ge x NaN = False"
| "js_ge PosInfinity y = True"
| "js_ge x NegInfinity = True"
| "js_ge x PosInfinity = False"
| "js_ge NegInfinity y = False"

text \<open>\<^verbatim>\<open>x <= y\<close> is \<^verbatim>\<open>y >= x\<close>.\<close>

definition js_le :: "number \<Rightarrow> number \<Rightarrow> bool" where
  "js_le x y = js_ge y x"


text \<open>\<^verbatim>\<open>-x\<close> and \<^verbatim>\<open>x - y\<close>.\<close>

fun js_neg :: "number \<Rightarrow> number" where
  "js_neg (Finite a) = Finite (- a)"
| "js_neg NaN = NaN"
| "js_neg PosInfinity = NegInfinity"
| "js_neg NegInfinity = PosInfinity"

definition js_sub :: "number \<Rightarrow> number \<Rightarrow> number" where
  "js_sub x y = js_add x (js_neg y)"

text \<open>\<^verbatim>\<open>Math.sin\<close>, \<^verbatim>\<open>Math.cos\<close>, \<^verbatim>\<open>Math.sqrt\<close>, \<^verbatim>\<open>Math.atan2\<close> and \<^verbatim>\<open>Math.PI\<close>.\<close>

fun js_sin :: "number \<Rightarrow> number" where
  "js_sin (Finite a) = Finite (sin a)"
| "js_sin x = NaN"

fun js_cos :: "number \<Rightarrow> number" where
  "js_cos (Finite a) = Finite (cos a)"
| "js_cos x = NaN"

fun js_sqrt :: "number \<Rightarrow> number" where
  "js_sqrt (Finite a) = (if a < 0 then NaN else Finite (sqrt a))"
| "js_sqrt PosInfinity = PosInfinity"
| "js_sqrt x = NaN"

fun js_atan2 :: "number \<Rightarrow> number \<Rightarrow> number" where
  "js_atan2 (Finite y) (Finite x) =
     Finite (if 0 < x then arctan (y / x)
             else if x < 0 then (if 0 \<le> y then arctan (y / x) + pi else arctan (y / x) - pi)
             else if 0 < y then pi / 2
             else if y < 0 then - (pi / 2)
             else 0)"
| "js_atan2 NaN x = NaN"
| "js_atan2 y NaN = NaN"
| "js_atan2 (Finite y) PosInfinity = Finite 0"
| "js_atan2 (Finite y) NegInfinity = Finite (if 0 \<le> y then pi else - pi)"
| "js_atan2 PosInfinity (Finite x) = Finite (pi / 2)"
| "js_atan2 NegInfinity (Finite x) = Finite (- (pi / 2))"
| "js_atan2 PosInfinity PosInfinity = Finite (pi / 4)"
| "js_atan2 PosInfinity NegInfinity = Finite (3 * pi / 4)"
| "js_atan2 NegInfinity PosInfinity = Finite (- (pi / 4))"
| "js_atan2 NegInfinity NegInfinity = Finite (- (3 * pi / 4))"

definition MATH_PI :: number where
  "MATH_PI = Finite pi"

section \<open>JavaScript values\<close>

text \<open>
  The values a field of a parsed JSON body may hold when the code does not trust its
  declared type. Arrays and objects are left out. \<^verbatim>\<open>Number(v)\<close> follows the
  language: \<^verbatim>\<open>undefined\<close> gives \<^verbatim>\<open>NaN\<close>, \<^verbatim>\<open>null\<close> gives 0, a
  boolean gives 0 or 1, and a string goes through the language's numeric-literal
  grammar, which is the parameter \<open>stringToNumber\<close>.
\<close>

datatype jsval = JUndefined | JNull | JBool bool | JNum number | JStr string

fun ToNumber :: "(string \<Rightarrow> number) \<Rightarrow> jsval \<Rightarrow> number" where
  "ToNumber stringToNumber JUndefined = NaN"
| "ToNumber stringToNumber JNull = Finite 0"
| "ToNumber stringToNumber (JBool b) = Finite (if b then 1 else 0)"
| "ToNumber stringToNumber (JNum n) = n"
| "ToNumber stringToNumber (JStr s) = stringToNumber s"

text \<open>Exceptions and rejected promises, as values.\<close>

datatype error =
    TransportError
  | DirectionsApiError string
  | NoRoutesFound
  | TypeError
  | AgentError string
  | InvalidCo2Value
  | PushRejected

section \<open>Gamification engine (src/lib/gamification.ts)\<close>

text \<open>
  \<^verbatim>\<open>EcoActionRecord\<close>. An optional field, and the kilogram field that the code
  guards with \<^verbatim>\<open>|| 0\<close>, is an option: \<open>None\<close> is the missing field. The timestamp
  is epoch milliseconds.
\<close>

record EcoActionRecord =
  action :: string
  distance_km :: "number option"
  distance_mi :: "number option"
  co2_saved_kg :: "number option"
  co2_saved_lb :: "number option"
  message :: string
  ts :: int

text \<open>
  \<^verbatim>\<open>Omit<Badge, "earned">\<close> and \<^verbatim>\<open>Badge\<close>: the second extends the first by the
  \<open>earned\<close> flag. Strings are UTF-8 bytes.
\<close>

record BadgeDefinition =
  badge_id :: string
  name :: string
  description :: string
  icon :: string
  threshold :: number

record Badge = BadgeDefinition +
  earned :: bool

definition KG_TO_LB :: number where
  "KG_TO_LB = Finite (220462 / 100000)"


definition co2_sub2 :: string where
  "co2_sub2 = ''CO'' @ [CHR 0xE2, CHR 0x82, CHR 0x82]"

definition BADGE_DEFINITIONS :: "BadgeDefinition list" where
  "BADGE_DEFINITIONS =
    [\<lparr>badge_id = ''starter'', name = ''Eco Starter'',
      description = ''Save your first 1 lb of '' @ co2_sub2,
      icon = [CHR 0xF0, CHR 0x9F, CHR 0x8C, CHR 0xB1], threshold = Finite 1\<rparr>,
     \<lparr>badge_id = ''committed'', name = ''Eco Committed'',
      description = ''Save 5 lb of '' @ co2_sub2,
      icon = [CHR 0xF0, CHR 0x9F, CHR 0x8C, CHR 0xBF], threshold = Finite 5\<rparr>,
     \<lparr>badge_id = ''champion'', name = ''Eco Champion'',
      description = ''Save 10 lb of '' @ co2_sub2,
      icon = [CHR 0xF0, CHR 0x9F, CHR 0x8F, CHR 0x86], threshold = Finite 10\<rparr>,
     \<lparr>badge_id = ''hero'', name = ''Eco Hero'',
      description = ''Save 25 lb of '' @ co2_sub2,
      icon = [CHR 0xE2, CHR 0xAD, CHR 0x90], threshold = Finite 25\<rparr>,
     \<lparr>badge_id = ''legend'', name = ''Eco Legend'',
      description = ''Save 50 lb of '' @ co2_sub2,
      icon = [CHR 0xF0, CHR 0x9F, CHR 0x91, CHR 0x91], threshold = Finite 50\<rparr>,
     \<lparr>badge_id = ''guardian'', name = ''Planet Guardian'',
      description = ''Save 100 lb of '' @ co2_sub2,
      icon = [CHR 0xF0, CHR 0x9F, CHR 0x8C, CHR 0x8D], threshold = Finite 100\<rparr>]"



text \<open>
  \<^verbatim>\<open>BADGE_DEFINITIONS.map((badge) => ({...badge, earned: totalCo2Saved >= badge.threshold}))\<close>
\<close>

definition calculateBadges :: "number \<Rightarrow> Badge list" where
  "calculateBadges totalCo2Saved =
     map (\<lambda>badge. BadgeDefinition.extend badge
                     (Badge.fields (js_ge totalCo2Saved (threshold badge))))
         BADGE_DEFINITIONS"

text \<open>
  \<^verbatim>\<open>calculateStreak\<close>. The day library (dayjs) is not part of the repository. A
  calendar day is modelled by its number, counted in the device's time zone:
  \<open>localDay t\<close> stands for \<^verbatim>\<open>dayjs(t).format("YYYY-MM-DD")\<close>, whose text order
  is the order of the day numbers (four-digit years), \<^verbatim>\<open>subtract(1, "day")\<close> is
  the day before and \<^verbatim>\<open>diff(_, "day")\<close> of two days is the difference of their
  numbers. \<open>now\<close> is the clock at evaluation time. The \<^verbatim>\<open>Set\<close> keeps insertion
  order; the comparator sort is stable.
\<close>

type_synonym day = int

definition addDay :: "day list \<Rightarrow> day \<Rightarrow> day list" where
  "addDay activeDays d = (if d \<in> set activeDays then activeDays else activeDays @ [d])"

text \<open>The \<^verbatim>\<open>for\<close> loop over \<^verbatim>\<open>sortedDays[1..]\<close>, with its \<^verbatim>\<open>break\<close>.\<close>

fun countConsecutive :: "nat \<Rightarrow> day \<Rightarrow> day list \<Rightarrow> nat" where
  "countConsecutive streak currentDay [] = streak"
| "countConsecutive streak currentDay (previousDay # rest) =
     (if currentDay - previousDay = 1
      then countConsecutive (streak + 1) previousDay rest
      else streak)"

definition calculateStreak ::
  "(int \<Rightarrow> day) \<Rightarrow> int \<Rightarrow> 'a EcoActionRecord_scheme list \<Rightarrow> nat" where
  "calculateStreak localDay now actions =
     (if length actions = 0 then 0
      else
        let sortedActions = sort_key (\<lambda>a. - ts a) actions;
            activeDays = foldl (\<lambda>s a. addDay s (localDay (ts a))) [] sortedActions;
            sortedDays = rev (sort activeDays)
        in case sortedDays of
             [] \<Rightarrow> 0
           | mostRecent # older \<Rightarrow>
               let today = localDay now;
                   yesterday = localDay now - 1
               in if mostRecent \<noteq> today \<and> mostRecent \<noteq> yesterday then 0
                  else countConsecutive 1 mostRecent older)"

section \<open>Distance resolution and polyline decoding (src/lib/directions.ts)\<close>

record Coordinate =
  latitude :: number
  longitude :: number

text \<open>\<^verbatim>\<open>RouteResult\<close>; its \<^verbatim>\<open>distance_mi\<close> is \<open>route_distance_mi\<close> here.\<close>

record RouteResult =
  route_distance_mi :: number
  polyline :: string
  duration_s :: "number option"

text \<open>\<^verbatim>\<open>haversineDistance\<close> of directions.ts: metres on a 6371 km sphere, then miles.\<close>

definition haversineDistance :: "Coordinate \<Rightarrow> Coordinate \<Rightarrow> number" where
  "haversineDistance from to =
     (let R = Finite 6371000;
          phi1 = js_div (js_mul (latitude from) MATH_PI) (Finite 180);
          phi2 = js_div (js_mul (latitude to) MATH_PI) (Finite 180);
          dphi = js_div (js_mul (js_sub (latitude to) (latitude from)) MATH_PI) (Finite 180);
          dlambda = js_div (js_mul (js_sub (longitude to) (longitude from)) MATH_PI) (Finite 180);
          a = js_add
                (js_mul (js_sin (js_div dphi (Finite 2))) (js_sin (js_div dphi (Finite 2))))
                (js_mul (js_mul (js_mul (js_cos phi1) (js_cos phi2))
                                (js_sin (js_div dlambda (Finite 2))))
                        (js_sin (js_div dlambda (Finite 2))));
          c = js_mul (Finite 2) (js_atan2 (js_sqrt a) (js_sqrt (js_sub (Finite 1) a)));
          meters = js_mul R c;
          km = js_div meters (Finite 1000)
      in js_mul km (Finite (621371 / 1000000)))"

text \<open>
  The routing collaborator. A request is what the URL carries; the collaborator answers
  with a transport error (\<^verbatim>\<open>fetch\<close> or \<^verbatim>\<open>response.json()\<close> rejects) or a body.
  The body is typed as the code reads it: \<open>distance_value\<close> is
  \<^verbatim>\<open>legItem.distance.value\<close> and \<open>duration_value\<close> is \<^verbatim>\<open>leg.duration?.value\<close>.
  A field is an option, \<open>None\<close> when it is absent; dereferencing an absent
  \<^verbatim>\<open>legs\<close>, \<^verbatim>\<open>distance\<close> or \<^verbatim>\<open>overview_polyline\<close> raises \<open>TypeError\<close>.
\<close>

datatype TravelMode = walking | bicycling

record DirectionsRequest =
  req_origin :: Coordinate
  req_destination :: Coordinate
  req_mode :: TravelMode
  req_key :: string

record Leg =
  distance_value :: "number option"
  duration_value :: "number option"

record Route =
  legs :: "Leg list option"
  overview_polyline :: "string option"

record DirectionsData =
  status :: string
  routes :: "Route list option"

text \<open>\<^verbatim>\<open>for (const legItem of route.legs) totalMeters += legItem.distance.value\<close>\<close>

fun sumLegs :: "number \<Rightarrow> Leg list \<Rightarrow> error + number" where
  "sumLegs totalMeters [] = Inr totalMeters"
| "sumLegs totalMeters (legItem # rest) =
     (case distance_value legItem of
        None \<Rightarrow> Inl TypeError
      | Some v \<Rightarrow> sumLegs (js_add totalMeters v) rest)"

text \<open>The body of the \<^verbatim>\<open>try\<close> block: \<open>Inl\<close> is a throw.\<close>

definition fetchRoute_try ::
  "(DirectionsRequest \<Rightarrow> error + DirectionsData) \<Rightarrow> DirectionsRequest \<Rightarrow> error + RouteResult"
  where
  "fetchRoute_try fetch request =
     (case fetch request of
        Inl e \<Rightarrow> Inl e
      | Inr data \<Rightarrow>
          if status data \<noteq> ''OK'' then Inl (DirectionsApiError (status data))
          else
            (case routes data of
               None \<Rightarrow> Inl NoRoutesFound
             | Some [] \<Rightarrow> Inl NoRoutesFound
             | Some (route # _) \<Rightarrow>
                 (case legs route of
                    None \<Rightarrow> Inl TypeError
                  | Some ls \<Rightarrow>
                      (case sumLegs (Finite 0) ls of
                         Inl e \<Rightarrow> Inl e
                       | Inr totalMeters \<Rightarrow>
                           let km = js_div totalMeters (Finite 1000);
                               distance_mi = js_mul km (Finite (621371 / 1000000))
                           in (case overview_polyline route of
                                 None \<Rightarrow> Inl TypeError
                               | Some points \<Rightarrow>
                                   (case ls of
                                      [] \<Rightarrow> Inl TypeError
                                    | leg # _ \<Rightarrow>
                                        Inr \<lparr>route_distance_mi = distance_mi,
                                             polyline = points,
                                             duration_s = duration_value leg\<rparr>))))))"

text \<open>
  \<^verbatim>\<open>fetchRoute\<close>. The result is paired with the list of requests sent to the
  routing collaborator; \<open>Inl\<close> would be an error that leaves the function.
\<close>

definition fetchRoute ::
  "(DirectionsRequest \<Rightarrow> error + DirectionsData) \<Rightarrow> string \<Rightarrow>
   Coordinate \<Rightarrow> Coordinate \<Rightarrow> TravelMode \<Rightarrow> (error + RouteResult) \<times> DirectionsRequest list"
  where
  "fetchRoute fetch GOOGLE_MAPS_API_KEY origin destination mode =
     (if GOOGLE_MAPS_API_KEY = []
      then (Inr \<lparr>route_distance_mi = haversineDistance origin destination,
                 polyline = [], duration_s = None\<rparr>, [])
      else
        let request = \<lparr>req_origin = origin, req_destination = destination,
                       req_mode = mode, req_key = GOOGLE_MAPS_API_KEY\<rparr>
        in (case fetchRoute_try fetch request of
              Inr result \<Rightarrow> (Inr result, [request])
            | Inl e \<Rightarrow>
                (Inr \<lparr>route_distance_mi = haversineDistance origin destination,
                      polyline = [], duration_s = None\<rparr>, [request])))"

text \<open>
  \<^verbatim>\<open>decodePolyline\<close>. The string is the list of its UTF-16 code units.
  \<^verbatim>\<open>charCodeAt\<close> past the end is \<^verbatim>\<open>NaN\<close> (\<open>None\<close>), which \<^verbatim>\<open>& 0x1f\<close> turns
  into 0 and which is not \<^verbatim>\<open>>= 0x20\<close>. The bitwise operators work on 32-bit
  integers and \<^verbatim>\<open><<\<close> takes its count modulo 32.
\<close>

definition charCodeAt :: "nat list \<Rightarrow> nat \<Rightarrow> int option" where
  "charCodeAt s i = (if i < length s then Some (int (s ! i)) else None)"

text \<open>One \<^verbatim>\<open>do ... while (b >= 0x20)\<close> loop; returns \<^verbatim>\<open>result\<close> and \<^verbatim>\<open>index\<close>.\<close>

function readGroup :: "nat list \<Rightarrow> nat \<Rightarrow> nat \<Rightarrow> 32 word \<Rightarrow> 32 word \<times> nat" where
  "readGroup encoded index shift result =
     (case charCodeAt encoded index of
        None \<Rightarrow> (result, index + 1)
      | Some c \<Rightarrow>
          let b = c - 63;
              result' = result OR push_bit (shift mod 32) (word_of_int (b AND 0x1f))
          in if b \<ge> 0x20 then readGroup encoded (index + 1) (shift + 5) result'
             else (result', index + 1))"
  by pat_completeness auto
termination
  by (relation "measure (\<lambda>(encoded, index, shift, result). length encoded - index)")
     (auto simp: charCodeAt_def split: if_splits)

declare readGroup.simps [simp del]

text \<open>\<^verbatim>\<open>(result & 1) !== 0 ? ~(result >> 1) : result >> 1\<close>\<close>

definition zigzag :: "32 word \<Rightarrow> int" where
  "zigzag result =
     sint (if result AND 1 \<noteq> 0 then NOT (signed_drop_bit 1 result)
           else signed_drop_bit 1 result)"

text \<open>The \<^verbatim>\<open>while (index < encoded.length)\<close> loop.\<close>

function decodeLoop ::
  "nat list \<Rightarrow> nat \<Rightarrow> int \<Rightarrow> int \<Rightarrow> Coordinate list \<Rightarrow> Coordinate list" where
  "decodeLoop encoded index lat lng coordinates =
     (if index < length encoded then
        (case readGroup encoded index 0 0 of
           (result1, index1) \<Rightarrow>
             (case readGroup encoded index1 0 0 of
                (result2, index2) \<Rightarrow>
                  let lat' = lat + zigzag result1;
                      lng' = lng + zigzag result2
                  in decodeLoop encoded index2 lat' lng'
                       (coordinates @
                          [\<lparr>latitude = js_div (Finite (of_int lat')) (Finite 100000),
                            longitude = js_div (Finite (of_int lng')) (Finite 100000)\<rparr>])))
      else coordinates)"
  by pat_completeness auto
termination
proof -
  have grows: "i < snd (readGroup e i s r)" for e i s r
  proof (induction e i s r rule: readGroup.induct)
    case (1 encoded index shift result)
    show ?case
    proof (cases "charCodeAt encoded index")
      case None
      then show ?thesis by (subst readGroup.simps) simp
    next
      case (Some c)
      show ?thesis
      proof (cases "c - 63 \<ge> 0x20")
        case True
        with Some 1 [OF Some refl refl True] show ?thesis
          by (subst readGroup.simps) (simp add: Let_def)
      next
        case False
        with Some show ?thesis by (subst readGroup.simps) (simp add: Let_def)
      qed
    qed
  qed
  show ?thesis
  proof (relation "measure (\<lambda>(encoded, index, lat, lng, coordinates). length encoded - index)")
    show "wf (measure (\<lambda>(encoded, index, lat, lng, coordinates). length encoded - index))"
      by simp
  next
    fix encoded :: "nat list" and index index1 index2 :: nat and lat lng lat' lng' :: int
      and coordinates :: "Coordinate list" and result1 result2 :: "32 word"
    assume lt: "index < length encoded"
      and r1: "(result1, index1) = readGroup encoded index 0 0"
      and r2: "(result2, index2) = readGroup encoded index1 0 0"
      and "lat' = lat + zigzag result1" and "lng' = lng + zigzag result2"
    from grows [of index encoded 0 0] r1 have "index < index1"
      by (metis snd_conv)
    moreover from grows [of index1 encoded 0 0] r2 have "index1 < index2"
      by (metis snd_conv)
    ultimately show "((encoded, index2, lat', lng',
          coordinates @
            [\<lparr>latitude = js_div (Finite (of_int lat')) (Finite 100000),
              longitude = js_div (Finite (of_int lng')) (Finite 100000)\<rparr>]),
         (encoded, index, lat, lng, coordinates))
        \<in> measure (\<lambda>(encoded, index, lat, lng, coordinates). length encoded - index)"
      using lt by simp
  qed
qed

declare decodeLoop.simps [simp del]

definition decodePolyline :: "nat list \<Rightarrow> Coordinate list" where
  "decodePolyline encoded = (if encoded = [] then [] else decodeLoop encoded 0 0 0 [])"

section \<open>Action submission (app/(tabs)/tracker.tsx)\<close>

datatype ActionType = bike | walk | recycled | vegetarian

record Co2SavingsRequest =
  req_user_id :: string
  req_action :: string
  req_distance_mi :: number

record AgentMeta =
  engine :: string
  model :: string
  timestamp :: number

text \<open>
  \<^verbatim>\<open>Co2SavingsResponse\<close>, as it comes out of the parsed body: the CO2 field is any
  value, since \<^verbatim>\<open>logAction\<close> checks it at run time.
\<close>

record Co2SavingsResponse =
  resp_user_id :: string
  resp_action :: string
  resp_co2_saved_kg :: jsval
  resp_message :: string
  agent_meta :: "AgentMeta option"

text \<open>The object handed to \<^verbatim>\<open>push\<close>: an action record with \<^verbatim>\<open>agent_engine\<close>.\<close>

record StoredAction = EcoActionRecord +
  agent_engine :: string

text \<open>
  What \<^verbatim>\<open>logAction\<close> does to the outside, in order. The texts of the alerts and the
  console output are left out.
\<close>

datatype event =
    SetLoading bool
  | GetCo2Savings Co2SavingsRequest
  | Push string StoredAction
  | AlertSuccess
  | AlertError
  | LoadData

text \<open>
  \<^verbatim>\<open>logAction\<close>. The collaborators are parameters: \<open>getCo2Savings\<close> returns the
  response or throws, \<open>push\<close> resolves (\<open>None\<close>) or rejects, \<open>userId\<close> is
  \<^verbatim>\<open>getUserId()\<close> and \<open>now\<close> is \<^verbatim>\<open>Date.now()\<close>. Every throw inside the
  \<^verbatim>\<open>try\<close> reaches the \<^verbatim>\<open>catch\<close>, which shows the error alert.
\<close>

definition logAction ::
  "(string \<Rightarrow> number) \<Rightarrow> (Co2SavingsRequest \<Rightarrow> error + Co2SavingsResponse) \<Rightarrow>
   (string \<Rightarrow> StoredAction \<Rightarrow> error option) \<Rightarrow> string \<Rightarrow> int \<Rightarrow>
   ActionType \<Rightarrow> number \<Rightarrow> event list" where
  "logAction stringToNumber getCo2Savings push userId now actionType distance =
     (let agentAction =
            (case actionType of
               bike \<Rightarrow> ''bike_trip''
             | walk \<Rightarrow> ''walk_trip''
             | recycled \<Rightarrow> ''recycled''
             | vegetarian \<Rightarrow> ''ate_vegetarian'');
          request = \<lparr>req_user_id = userId, req_action = agentAction,
                     req_distance_mi = distance\<rparr>
      in [SetLoading True, GetCo2Savings request] @
         (case getCo2Savings request of
            Inl e \<Rightarrow> [AlertError]
          | Inr agentResponse \<Rightarrow>
              let co2Kg = ToNumber stringToNumber (resp_co2_saved_kg agentResponse)
              in if \<not> isFinite co2Kg then [AlertError]
                 else
                   let co2SavedLb = js_mul co2Kg KG_TO_LB;
                       engine_name =
                         (case agent_meta agentResponse of
                            None \<Rightarrow> ''unknown''
                          | Some meta \<Rightarrow> if engine meta = [] then ''unknown'' else engine meta);
                       path = ''users/'' @ userId @ ''/actions'';
                       stored =
                         \<lparr>action = agentAction, distance_km = None,
                          distance_mi = Some distance,
                          co2_saved_kg = Some co2Kg, co2_saved_lb = Some co2SavedLb,
                          message = resp_message agentResponse, ts = now,
                          agent_engine = engine_name\<rparr>
                   in Push path stored #
                      (case push path stored of
                         None \<Rightarrow> [AlertSuccess, LoadData]
                       | Some e \<Rightarrow> [AlertError])) @
         [SetLoading False])"

text \<open>Whether a run of \<^verbatim>\<open>logAction\<close> invoked the persistence call.\<close>

fun is_push :: "event \<Rightarrow> bool" where
  "is_push (Push path stored) = True"
| "is_push e = False"

section \<open>The specification's wording\<close>








text \<open>
  Distance resolution as the specification words it: the Haversine-only result with an
  empty polyline, and the failures of a lookup it names (a transport error, a status
  other than \<^verbatim>\<open>OK\<close>, a missing or empty route list).
\<close>

definition haversine_fallback :: "Coordinate \<Rightarrow> Coordinate \<Rightarrow> RouteResult" where
  "haversine_fallback origin destination =
     \<lparr>route_distance_mi = haversineDistance origin destination,
      polyline = [], duration_s = None\<rparr>"

definition failed_lookup :: "error + DirectionsData \<Rightarrow> bool" where
  "failed_lookup answer =
     (case answer of
        Inl e \<Rightarrow> True
      | Inr data \<Rightarrow> status data \<noteq> ''OK'' \<or> routes data = None \<or> routes data = Some [])"

section \<open>Sample data\<close>

text \<open>
  A device in UTC, and a history with records on day 10, day 9 and day 7 after the
  epoch; evaluated during day 10 these are today, yesterday and three days ago.
\<close>

definition utcDay :: "int \<Rightarrow> day" where
  "utcDay t = t div 86400000"

definition sample_history :: "EcoActionRecord list" where
  "sample_history =
     [\<lparr>action = ''bike_trip'', distance_km = None, distance_mi = Some (Finite 2),
       co2_saved_kg = Some (Finite 1), co2_saved_lb = Some (Finite 3),
       message = ''ride'', ts = 777600000\<rparr>,
      \<lparr>action = ''recycled'', distance_km = None, distance_mi = None,
       co2_saved_kg = Some (Finite 2), co2_saved_lb = None,
       message = ''bottles'', ts = 864000000\<rparr>,
      \<lparr>action = ''walk_trip'', distance_km = Some (Finite 1), distance_mi = None,
       co2_saved_kg = None, co2_saved_lb = None,
       message = ''walk'', ts = 604800003\<rparr>]"

definition sample_now :: int where
  "sample_now = 864000005"

definition origin_point :: Coordinate where
  "origin_point = \<lparr>latitude = Finite 0, longitude = Finite 0\<rparr>"

definition no_results :: "DirectionsRequest \<Rightarrow> error + DirectionsData" where
  "no_results request = Inr \<lparr>status = ''ZERO_RESULTS'', routes = Some []\<rparr>"

definition null_estimate :: "Co2SavingsRequest \<Rightarrow> error + Co2SavingsResponse" where
  "null_estimate request =
     Inr \<lparr>resp_user_id = req_user_id request, resp_action = req_action request,
          resp_co2_saved_kg = JNull, resp_message = ''no estimate'', agent_meta = None\<rparr>"

section \<open>Arithmetic of numbers\<close>

lemma js_ge_trans: "js_ge c b \<Longrightarrow> js_ge b a \<Longrightarrow> js_ge c a"
  by (cases a; cases b; cases c) auto



section \<open>Unit reconciliation\<close>






section \<open>Total, level and badges\<close>







lemma length_BADGE_DEFINITIONS: "length BADGE_DEFINITIONS = 6"
  by (simp add: BADGE_DEFINITIONS_def)

lemma earned_extend: "earned (BadgeDefinition.extend d (Badge.fields e)) = e"
  by (simp add: BadgeDefinition.extend_def Badge.fields_def)

lemma truncate_extend:
  "BadgeDefinition.truncate (BadgeDefinition.extend d (Badge.fields e)) = d"
  by (simp add: BadgeDefinition.extend_def BadgeDefinition.truncate_def Badge.fields_def)

lemma calculateBadges_nth:
  "i < length BADGE_DEFINITIONS \<Longrightarrow>
   calculateBadges t ! i =
     BadgeDefinition.extend (BADGE_DEFINITIONS ! i)
       (Badge.fields (js_ge t (threshold (BADGE_DEFINITIONS ! i))))"
  by (simp add: calculateBadges_def)

lemma length_calculateBadges: "length (calculateBadges t) = length BADGE_DEFINITIONS"
  by (simp add: calculateBadges_def)

lemma threshold_le_100:
  "d \<in> set BADGE_DEFINITIONS \<Longrightarrow> js_ge (Finite 100) (threshold d)"
  by (auto simp: BADGE_DEFINITIONS_def)

lemma calculateBadges_at_5:
  "map (\<lambda>b. (name b, earned b)) (calculateBadges (Finite 5)) =
     [(''Eco Starter'', True), (''Eco Committed'', True), (''Eco Champion'', False),
      (''Eco Hero'', False), (''Eco Legend'', False), (''Planet Guardian'', False)]"
  by (simp add: calculateBadges_def BADGE_DEFINITIONS_def BadgeDefinition.extend_def
      Badge.fields_def)

text \<open>
  C7. For every total, \<^verbatim>\<open>calculateBadges\<close> marks each badge of the catalog earned
  exactly when the total is at least that badge's own threshold, whatever the other
  badges and the position in the catalog. At 5.0 lb Eco Starter and Eco Committed are
  earned and Eco Champion is not. A total at or above the highest threshold, 100, earns
  every badge.
\<close>

theorem calculateBadges_earned:
  "(\<forall>i < length BADGE_DEFINITIONS.
      earned (calculateBadges t ! i) = js_ge t (threshold (BADGE_DEFINITIONS ! i)))
   \<and> map (\<lambda>b. (name b, earned b)) (calculateBadges (Finite 5)) =
     [(''Eco Starter'', True), (''Eco Committed'', True), (''Eco Champion'', False),
      (''Eco Hero'', False), (''Eco Legend'', False), (''Planet Guardian'', False)]
   \<and> (js_ge t (Finite 100) \<longrightarrow> (\<forall>b \<in> set (calculateBadges t). earned b))"
proof (intro conjI allI impI ballI)
  fix i assume "i < length BADGE_DEFINITIONS"
  then show "earned (calculateBadges t ! i) = js_ge t (threshold (BADGE_DEFINITIONS ! i))"
    by (simp add: calculateBadges_nth earned_extend)
next
  show "map (\<lambda>b. (name b, earned b)) (calculateBadges (Finite 5)) =
     [(''Eco Starter'', True), (''Eco Committed'', True), (''Eco Champion'', False),
      (''Eco Hero'', False), (''Eco Legend'', False), (''Planet Guardian'', False)]"
    by (rule calculateBadges_at_5)
next
  fix b assume top: "js_ge t (Finite 100)" and "b \<in> set (calculateBadges t)"
  then obtain d where d: "d \<in> set BADGE_DEFINITIONS"
    and b: "b = BadgeDefinition.extend d (Badge.fields (js_ge t (threshold d)))"
    by (auto simp: calculateBadges_def)
  from top threshold_le_100 [OF d] have "js_ge t (threshold d)"
    by (rule js_ge_trans)
  with b show "earned b" by (simp add: earned_extend)
qed

theorem calculateBadges_earned_witness:
  "(1::nat) < length BADGE_DEFINITIONS
   \<and> earned (calculateBadges (Finite 7) ! 1)
   \<and> js_ge (Finite 120) (Finite 100)
   \<and> list_all earned (calculateBadges (Finite 120))"
  using calculateBadges_earned [of "Finite 7"] calculateBadges_earned [of "Finite 120"]
  by (simp add: BADGE_DEFINITIONS_def list_all_iff)

text \<open>
  C9. Badge earning is monotone in the total: for totals \<open>t1 \<le> t2\<close>, every badge that
  \<^verbatim>\<open>calculateBadges(t1)\<close> marks earned is marked earned by \<^verbatim>\<open>calculateBadges(t2)\<close>.
\<close>

theorem calculateBadges_monotone:
  "js_le t1 t2 \<Longrightarrow> i < length BADGE_DEFINITIONS \<Longrightarrow>
   earned (calculateBadges t1 ! i) \<Longrightarrow> earned (calculateBadges t2 ! i)"
  unfolding js_le_def
  by (simp add: calculateBadges_nth earned_extend) (erule (1) js_ge_trans)

theorem calculateBadges_monotone_witness:
  "js_le (Finite 6) (Finite 30) \<and> (1::nat) < length BADGE_DEFINITIONS
   \<and> earned (calculateBadges (Finite 6) ! 1) \<and> earned (calculateBadges (Finite 30) ! 1)"
proof -
  have a: "js_le (Finite 6) (Finite 30)" by (simp add: js_le_def)
  have b: "(1::nat) < length BADGE_DEFINITIONS" by (simp add: BADGE_DEFINITIONS_def)
  have c: "earned (calculateBadges (Finite 6) ! 1)"
    by (simp add: calculateBadges_def BADGE_DEFINITIONS_def BadgeDefinition.extend_def
        Badge.fields_def)
  from calculateBadges_monotone [OF a b c] a b c show ?thesis by simp
qed

text \<open>
  C10. For every total, \<^verbatim>\<open>NaN\<close> and the infinities included, \<^verbatim>\<open>calculateBadges\<close>
  returns exactly six badges in the order of the catalog, and dropping the
  \<^verbatim>\<open>earned\<close> flag from each gives back the catalog: id, name, description, icon and
  threshold are those of the definition.
\<close>

theorem calculateBadges_frame:
  "length (calculateBadges t) = 6
   \<and> map BadgeDefinition.truncate (calculateBadges t) = BADGE_DEFINITIONS
   \<and> map badge_id (calculateBadges t) =
       [''starter'', ''committed'', ''champion'', ''hero'', ''legend'', ''guardian'']
   \<and> map threshold (calculateBadges t) =
       [Finite 1, Finite 5, Finite 10, Finite 25, Finite 50, Finite 100]"
proof -
  have "map BadgeDefinition.truncate (calculateBadges t) = map (\<lambda>d. d) BADGE_DEFINITIONS"
    unfolding calculateBadges_def map_map
    by (rule map_cong) (simp_all add: truncate_extend)
  moreover have "map badge_id (calculateBadges t) =
       [''starter'', ''committed'', ''champion'', ''hero'', ''legend'', ''guardian'']"
    by (simp add: calculateBadges_def BADGE_DEFINITIONS_def BadgeDefinition.extend_def
        Badge.fields_def)
  moreover have "map threshold (calculateBadges t) =
       [Finite 1, Finite 5, Finite 10, Finite 25, Finite 50, Finite 100]"
    by (simp add: calculateBadges_def BADGE_DEFINITIONS_def BadgeDefinition.extend_def
        Badge.fields_def)
  ultimately show ?thesis
    by (simp add: length_calculateBadges length_BADGE_DEFINITIONS)
qed

section \<open>Streak\<close>

















text \<open>The same history run through the code itself, and two days later.\<close>

lemma calculateStreak_sample: "calculateStreak utcDay sample_now sample_history = 2"
  by code_simp

lemma calculateStreak_gap_sample:
  "calculateStreak utcDay (sample_now + 2 * 86400000) sample_history = 0"
  by code_simp

section \<open>Polyline decoding\<close>

lemma readGroup_index_grows: "index < snd (readGroup encoded index shift result)"
proof (induction encoded index shift result rule: readGroup.induct)
  case (1 encoded index shift result)
  show ?case
  proof (cases "charCodeAt encoded index")
    case None
    then show ?thesis by (subst readGroup.simps) simp
  next
    case (Some c)
    show ?thesis
    proof (cases "c - 63 \<ge> 0x20")
      case True
      with Some 1 [OF Some refl refl True] show ?thesis
        by (subst readGroup.simps) (simp add: Let_def)
    next
      case False
      with Some show ?thesis by (subst readGroup.simps) (simp add: Let_def)
    qed
  qed
qed

lemma length_decodeLoop:
  "length (decodeLoop encoded index lat lng coordinates)
     \<le> length coordinates + (length encoded - index + 1) div 2"
proof (induction encoded index lat lng coordinates rule: decodeLoop.induct)
  case (1 encoded index lat lng coordinates)
  show ?case
  proof (cases "index < length encoded")
    case False
    then show ?thesis by (subst decodeLoop.simps) simp
  next
    case True
    obtain result1 index1 where r1: "readGroup encoded index 0 0 = (result1, index1)"
      by (cases "readGroup encoded index 0 0")
    obtain result2 index2 where r2: "readGroup encoded index1 0 0 = (result2, index2)"
      by (cases "readGroup encoded index1 0 0")
    from readGroup_index_grows [of index encoded 0 0] r1 have "index < index1" by simp
    moreover from readGroup_index_grows [of index1 encoded 0 0] r2 have "index1 < index2"
      by simp
    ultimately have step: "(length encoded - index2 + 1) div 2 + 1
        \<le> (length encoded - index + 1) div 2"
      using True by arith
    have "length (decodeLoop encoded index lat lng coordinates)
        = length (decodeLoop encoded index2 (lat + zigzag result1) (lng + zigzag result2)
            (coordinates @
              [\<lparr>latitude = js_div (Finite (of_int (lat + zigzag result1))) (Finite 100000),
                longitude = js_div (Finite (of_int (lng + zigzag result2))) (Finite 100000)\<rparr>]))"
      using True r1 r2 by (subst decodeLoop.simps) (simp add: Let_def)
    also have "\<dots> \<le> length coordinates + 1 + (length encoded - index2 + 1) div 2"
      using "1" [OF True r1 [symmetric] r2 [symmetric] refl refl] by simp
    also have "\<dots> \<le> length coordinates + (length encoded - index + 1) div 2"
      using step by simp
    finally show ?thesis .
  qed
qed

text \<open>The documented example of the polyline format.\<close>

lemma decodePolyline_example:
  "decodePolyline (map of_char ''_p~iF~ps|U_ulLnnqC_mqNvxq`@'') =
     [\<lparr>latitude = Finite (385 / 10), longitude = Finite (- (1202 / 10))\<rparr>,
      \<lparr>latitude = Finite (407 / 10), longitude = Finite (- (12095 / 100))\<rparr>,
      \<lparr>latitude = Finite (43252 / 1000), longitude = Finite (- (126453 / 1000))\<rparr>]"
  by code_simp

text \<open>
  C8. \<^verbatim>\<open>decodePolyline\<close> of the empty string is the empty sequence, and on every
  input string it returns a finite sequence, of at most half as many coordinates
  (rounded up) as the string has code units. Both loops terminate on every input, and
  the function reads nothing but its argument, so two evaluations on the same input give
  the same sequence.
\<close>

theorem decodePolyline_total:
  "decodePolyline [] = []
   \<and> length (decodePolyline encoded) \<le> (length encoded + 1) div 2"
  using length_decodeLoop [of encoded 0 0 0 "[]"] by (simp add: decodePolyline_def)

section \<open>Distance resolution\<close>

lemma fetchRoute_no_key:
  "fetchRoute fetch [] origin destination mode
     = (Inr (haversine_fallback origin destination), [])"
  by (simp add: fetchRoute_def haversine_fallback_def)

lemma fetchRoute_returns:
  "\<exists>result. fst (fetchRoute fetch key origin destination mode) = Inr result"
  by (simp add: fetchRoute_def Let_def split: sum.splits)

lemma fetchRoute_catch:
  "key \<noteq> [] \<Longrightarrow>
   fetchRoute_try fetch \<lparr>req_origin = origin, req_destination = destination,
                         req_mode = mode, req_key = key\<rparr> = Inl e \<Longrightarrow>
   fst (fetchRoute fetch key origin destination mode)
     = Inr (haversine_fallback origin destination)"
  by (simp add: fetchRoute_def haversine_fallback_def Let_def)

lemma haversineDistance_same_point:
  "haversineDistance origin_point origin_point = Finite 0"
  by (simp add: haversineDistance_def origin_point_def MATH_PI_def js_sub_def Let_def)

text \<open>
  C4. For every origin, destination and mode \<^verbatim>\<open>fetchRoute\<close> never lets an error
  out. Without a routing credential it sends no request and returns the Haversine
  distance with an empty polyline. With a credential, a failed lookup (a transport
  error, a status other than \<^verbatim>\<open>OK\<close>, a missing or empty route list) gives the
  Haversine distance with an empty polyline, not a thrown error.
\<close>

theorem fetchRoute_never_throws:
  "fetchRoute fetch [] origin destination mode
     = (Inr (haversine_fallback origin destination), [])
   \<and> (\<exists>result. fst (fetchRoute fetch key origin destination mode) = Inr result)
   \<and> (key \<noteq> [] \<and>
        failed_lookup (fetch \<lparr>req_origin = origin, req_destination = destination,
                                req_mode = mode, req_key = key\<rparr>)
      \<longrightarrow> fst (fetchRoute fetch key origin destination mode)
            = Inr (haversine_fallback origin destination))"
proof (intro conjI impI)
  show "fetchRoute fetch [] origin destination mode
     = (Inr (haversine_fallback origin destination), [])"
    by (rule fetchRoute_no_key)
  show "\<exists>result. fst (fetchRoute fetch key origin destination mode) = Inr result"
    by (rule fetchRoute_returns)
next
  let ?request = "\<lparr>req_origin = origin, req_destination = destination,
                    req_mode = mode, req_key = key\<rparr>"
  assume a: "key \<noteq> [] \<and> failed_lookup (fetch ?request)"
  then have "\<exists>e. fetchRoute_try fetch ?request = Inl e"
    unfolding failed_lookup_def
    by (cases "fetch ?request") (auto simp: fetchRoute_try_def)
  with a show "fst (fetchRoute fetch key origin destination mode)
            = Inr (haversine_fallback origin destination)"
    by (auto simp: fetchRoute_catch)
qed

theorem fetchRoute_never_throws_witness:
  "''k'' \<noteq> []
   \<and> failed_lookup (no_results \<lparr>req_origin = origin_point, req_destination = origin_point,
                                  req_mode = walking, req_key = ''k''\<rparr>)
   \<and> fst (fetchRoute no_results ''k'' origin_point origin_point walking)
      = Inr \<lparr>route_distance_mi = Finite 0, polyline = [], duration_s = None\<rparr>
   \<and> fetchRoute no_results [] origin_point origin_point walking
      = (Inr \<lparr>route_distance_mi = Finite 0, polyline = [], duration_s = None\<rparr>, [])"
  using fetchRoute_never_throws [of no_results origin_point origin_point walking "''k''"]
  by (simp add: failed_lookup_def no_results_def haversine_fallback_def
      haversineDistance_same_point)

section \<open>Action submission\<close>

text \<open>
  What the code does: the persistence call is made exactly when the estimation
  collaborator returns and \<^verbatim>\<open>Number(...)\<close> of its CO2 field is finite.
\<close>

lemma logAction_pushes_iff:
  "list_ex is_push (logAction stringToNumber getCo2Savings push userId now actionType distance)
   \<longleftrightarrow> (\<exists>agentResponse.
          getCo2Savings \<lparr>req_user_id = userId,
               req_action = (case actionType of bike \<Rightarrow> ''bike_trip'' | walk \<Rightarrow> ''walk_trip''
                   | recycled \<Rightarrow> ''recycled'' | vegetarian \<Rightarrow> ''ate_vegetarian''),
               req_distance_mi = distance\<rparr> = Inr agentResponse
          \<and> isFinite (ToNumber stringToNumber (resp_co2_saved_kg agentResponse)))"
  by (auto simp: logAction_def Let_def list_ex_iff split: sum.splits option.splits)

lemma logAction_estimation_failure:
  "\<forall>request. getCo2Savings request = Inl e \<Longrightarrow>
   \<not> list_ex is_push
       (logAction stringToNumber getCo2Savings push userId now actionType distance)"
  by (simp add: logAction_pushes_iff)

lemma logAction_nonfinite_co2:
  "\<forall>request r. getCo2Savings request = Inr r \<longrightarrow>
      \<not> isFinite (ToNumber stringToNumber (resp_co2_saved_kg r)) \<Longrightarrow>
   \<not> list_ex is_push
       (logAction stringToNumber getCo2Savings push userId now actionType distance)"
  by (auto simp: logAction_pushes_iff)

text \<open>
  C3. The submission flow must not invoke persistence when the collaborator's CO2 field
  is not a finite number. The code breaks this on a response whose CO2 field is
  \<^verbatim>\<open>null\<close>: \<^verbatim>\<open>Number(null)\<close> is 0, the finiteness guard passes, and an action
  with 0 kg and 0 lb is pushed to the store.
\<close>

theorem logAction_null_co2_is_pushed:
  "logAction (\<lambda>s. NaN) null_estimate (\<lambda>path stored. None) ''u1'' 1700000000000
     recycled (Finite 0)
   = [SetLoading True,
      GetCo2Savings \<lparr>req_user_id = ''u1'', req_action = ''recycled'',
                     req_distance_mi = Finite 0\<rparr>,
      Push ''users/u1/actions''
        \<lparr>action = ''recycled'', distance_km = None, distance_mi = Some (Finite 0),
         co2_saved_kg = Some (Finite 0), co2_saved_lb = Some (Finite 0),
         message = ''no estimate'', ts = 1700000000000, agent_engine = ''unknown''\<rparr>,
      AlertSuccess, LoadData, SetLoading False]"
  by (simp add: logAction_def null_estimate_def KG_TO_LB_def Let_def)

end
